theory Spec2Isabelle
  imports Main
begin

section \<open>JavaScript values\<close>

text \<open>
  The payloads that travel through the dispatch layer of \<^verbatim>\<open>src/index.ts\<close> are plain
  JavaScript values: \<^verbatim>\<open>undefined\<close>, \<^verbatim>\<open>null\<close>, booleans, numbers, strings, arrays and
  objects. An object is kept as an association list, so that the order of its keys is
  the order in which the transport delivered them.
\<close>

datatype json =
    JUndefined
  | JNull
  | JBool bool
  | JNum int
  | JStr string
  | JArr "json list"
  | JObj "(string \<times> json) list"

text \<open>JavaScript truthiness: what \<^verbatim>\<open>if (v)\<close>, \<^verbatim>\<open>!v\<close>, \<^verbatim>\<open>a || b\<close> and \<^verbatim>\<open>a && b\<close> test.
  Arrays and objects are truthy even when they are empty.\<close>

fun truthy :: "json \<Rightarrow> bool" where
  "truthy JUndefined = False"
| "truthy JNull = False"
| "truthy (JBool b) = b"
| "truthy (JNum n) = (n \<noteq> 0)"
| "truthy (JStr s) = (s \<noteq> [])"
| "truthy (JArr xs) = True"
| "truthy (JObj fs) = True"

text \<open>A value that is \<^verbatim>\<open>null\<close> or absent.\<close>

fun nullish :: "json \<Rightarrow> bool" where
  "nullish JUndefined = True"
| "nullish JNull = True"
| "nullish v = False"

text \<open>
  Property access \<^verbatim>\<open>v.k\<close>. On an object a missing key reads as \<^verbatim>\<open>undefined\<close>, and so does
  any key of a boolean, a number or a string. On \<^verbatim>\<open>null\<close> and \<^verbatim>\<open>undefined\<close> JavaScript
  raises a \<^verbatim>\<open>TypeError\<close> instead: there \<open>get_prop\<close> reads \<^verbatim>\<open>undefined\<close>, which is the guarded
  access \<^verbatim>\<open>v?.k\<close> and not the plain one. The accesses that \<^verbatim>\<open>src/index.ts\<close> makes itself
  (\<^verbatim>\<open>handledData.data.token\<close>, \<^verbatim>\<open>variables.email\<close>, \<^verbatim>\<open>variables.password\<close>) are made on a
  value that was just tested truthy, where the two agree. A projection such as
  \<^verbatim>\<open>data => data.tokenCreate\<close> is applied by the helper \<^verbatim>\<open>getMappedData\<close>; as a projection,
  \<open>get_prop k\<close> stands for it together with the guard against an absent payload that
  the helper or the projection has to provide (see \<^verbatim>\<open>getMappedData\<close> below). Nothing
  proved below rests on the value of \<open>get_prop\<close> at \<^verbatim>\<open>null\<close> or \<^verbatim>\<open>undefined\<close>.
\<close>

fun get_prop :: "string \<Rightarrow> json \<Rightarrow> json" where
  "get_prop k (JObj fs) = (case map_of fs k of Some v \<Rightarrow> v | None \<Rightarrow> JUndefined)"
| "get_prop k v = JUndefined"

text \<open>The direct child fields of a payload.\<close>

fun children :: "json \<Rightarrow> json list" where
  "children (JObj fs) = map snd fs"
| "children v = []"

section \<open>Errors\<close>

text \<open>A transport-level error entry (\<^verbatim>\<open>GraphQLError\<close>), identified by its message.\<close>

datatype GraphQLError = GraphQLError (message: string)

text \<open>
  The unified error: the \<^verbatim>\<open>ApolloError\<close> that \<^verbatim>\<open>handleDataErrors\<close> builds from the two
  constructor arguments it passes, \<^verbatim>\<open>extraInfo\<close> and \<^verbatim>\<open>graphQLErrors\<close>. The transport
  errors argument is optional in the source (\<^verbatim>\<open>apolloErrors?\<close>): \<open>None\<close> is
  \<^verbatim>\<open>undefined\<close>, \<open>Some []\<close> is a list that is present and empty.
\<close>

record ApolloError =
  extraInfo :: json
  graphQLErrors :: "GraphQLError list option"

text \<open>
  The unified outcome: \<^verbatim>\<open>{ errors }\<close> or \<^verbatim>\<open>{ data: result }\<close>. Reading the field that
  an outcome does not have gives \<^verbatim>\<open>undefined\<close>.
\<close>

datatype outcome = Errors ApolloError | Data json

fun outcome_errors :: "outcome \<Rightarrow> ApolloError option" where
  "outcome_errors (Errors e) = Some e"
| "outcome_errors (Data v) = None"

fun outcome_data :: "outcome \<Rightarrow> json" where
  "outcome_data (Errors e) = JUndefined"
| "outcome_data (Data v) = v"

section \<open>The helpers of \<^verbatim>\<open>./utils\<close>\<close>

text \<open>Modelled from the spec: the test "a non-empty list" that the search of
  \<^verbatim>\<open>getErrorsFromData\<close> makes (spec 4.3, step 1).\<close>

fun nonempty_list :: "json \<Rightarrow> bool" where
  "nonempty_list (JArr (e # es)) = True"
| "nonempty_list v = False"

text \<open>Modelled from the spec: \<^verbatim>\<open>getErrorsFromData\<close> of \<^verbatim>\<open>./utils\<close> is imported by
  \<^verbatim>\<open>src/index.ts\<close> and its body is missing. The spec (4.3, step 1): scan the data for
  embedded domain errors, searching recursively the result-wrapper fields for an
  \<^verbatim>\<open>errors\<close> field that holds a non-empty list. The search is depth first, in the order
  of the fields. The result is the first such list, and \<^verbatim>\<open>null\<close> when there is none, so
  that "domain errors were found" is the truthiness that \<^verbatim>\<open>handleDataErrors\<close> tests.
\<close>

fun getErrorsFromData :: "json \<Rightarrow> json"
  and errors_in_fields :: "(string \<times> json) list \<Rightarrow> json" where
  "getErrorsFromData (JObj fs) = errors_in_fields fs"
| "getErrorsFromData JUndefined = JNull"
| "getErrorsFromData JNull = JNull"
| "getErrorsFromData (JBool b) = JNull"
| "getErrorsFromData (JNum n) = JNull"
| "getErrorsFromData (JStr s) = JNull"
| "getErrorsFromData (JArr xs) = JNull"
| "errors_in_fields [] = JNull"
| "errors_in_fields ((k, v) # fs) =
     (if k = ''errors'' \<and> nonempty_list v then v
      else (let found = getErrorsFromData v
            in if truthy found then found else errors_in_fields fs))"

text \<open>Modelled from the spec: \<^verbatim>\<open>isDataEmpty\<close> of \<^verbatim>\<open>./utils\<close> is imported by
  \<^verbatim>\<open>src/index.ts\<close> and its body is missing. The spec (4.3, step 3): data is empty when
  the root data value is null, or all of its direct child fields resolve to null.
\<close>

definition isDataEmpty :: "json \<Rightarrow> bool" where
  "isDataEmpty d = (nullish d \<or> list_all nullish (children d))"

text \<open>Modelled from the spec: \<^verbatim>\<open>getMappedData\<close> of \<^verbatim>\<open>./utils\<close> is imported by
  \<^verbatim>\<open>src/index.ts\<close> and its body is missing. The spec (4.3, step 4; 8, property 2):
  apply the caller-supplied projection to the raw payload, \<^verbatim>\<open>projected = mapFn(data)\<close>.
  The spec requires the projection to tolerate an absent payload and not to raise on
  it, so a projection is a total function on values and normalization always yields an
  outcome.
\<close>

definition getMappedData :: "(json \<Rightarrow> json) \<Rightarrow> json \<Rightarrow> json" where
  "getMappedData mapFn d = mapFn d"

section \<open>The error normalizer\<close>

text \<open>
  The constant \<^verbatim>\<open>errors\<close> of \<^verbatim>\<open>handleDataErrors\<close> (src/index.ts, lines 254-261): the
  unified error, or \<^verbatim>\<open>null\<close>. The test \<^verbatim>\<open>apolloErrors || userInputErrors\<close> is a
  truthiness test: an array that is present is truthy whatever its length, so only an
  absent \<^verbatim>\<open>apolloErrors\<close> is falsy.
\<close>

definition unifiedError :: "json \<Rightarrow> GraphQLError list option \<Rightarrow> ApolloError option" where
  "unifiedError d apolloErrors =
     (let userInputErrors = getErrorsFromData d
      in if apolloErrors \<noteq> None \<or> truthy userInputErrors
         then Some \<lparr>extraInfo = userInputErrors, graphQLErrors = apolloErrors\<rparr>
         else None)"

text \<open>\<^verbatim>\<open>handleDataErrors\<close> (src/index.ts, lines 248-270).\<close>

definition handleDataErrors ::
  "(json \<Rightarrow> json) \<Rightarrow> json \<Rightarrow> GraphQLError list option \<Rightarrow> outcome" where
  "handleDataErrors mapFn d apolloErrors =
     (case (unifiedError d apolloErrors, isDataEmpty d) of
        (Some e, True) \<Rightarrow> Errors e
      | _ \<Rightarrow> (let result = getMappedData mapFn d in Data result))"

section \<open>Promises\<close>

text \<open>
  What a promise rejects with, and what a \<^verbatim>\<open>catch\<close> clause receives: the unified error
  built by the normalizer, or any other exception (a network failure, a timeout, a
  \<^verbatim>\<open>TypeError\<close>), identified by its message.
\<close>

datatype thrown = ApolloErr ApolloError | Exn string

text \<open>
  A promise is pending until the first call of \<^verbatim>\<open>resolve\<close> or \<^verbatim>\<open>reject\<close> settles it;
  every later call is ignored.
\<close>

datatype promise = Pending | Resolved json | Rejected thrown

fun resolve :: "json \<Rightarrow> promise \<Rightarrow> promise" where
  "resolve v Pending = Resolved v"
| "resolve v p = p"

fun reject :: "thrown \<Rightarrow> promise \<Rightarrow> promise" where
  "reject e Pending = Rejected e"
| "reject e p = p"

text \<open>
  The raw result of the transport pipeline: the data payload and the optional list of
  transport errors (\<^verbatim>\<open>{ data, errors }\<close>).
\<close>

record RawResult =
  data :: json
  errors :: "GraphQLError list option"

text \<open>
  \<^verbatim>\<open>firePromise\<close> (src/index.ts, lines 224-244). The factory \<^verbatim>\<open>promise\<close> is given by what
  awaiting it yields: \<open>Inl\<close> an exception thrown while awaiting, \<open>Inr\<close> the raw
  result. The executor does not return after \<^verbatim>\<open>reject\<close>, so \<^verbatim>\<open>resolve\<close> is called on
  every path that reaches it; on a promise that is already rejected it has no effect.
\<close>

definition firePromise :: "thrown + RawResult \<Rightarrow> (json \<Rightarrow> json) \<Rightarrow> promise" where
  "firePromise awaited mapFn =
     (case awaited of
        Inl error \<Rightarrow> reject error Pending
      | Inr r \<Rightarrow>
          (let errorHandledData = handleDataErrors mapFn (data r) (errors r);
               p = (case outcome_errors errorHandledData of
                      Some e \<Rightarrow> reject (ApolloErr e) Pending
                    | None \<Rightarrow> Pending)
           in resolve (JObj [(''data'', outcome_data errorHandledData)]) p))"

text \<open>
  \<^verbatim>\<open>fireQuery\<close> (src/index.ts, lines 205-221): the promise of \<^verbatim>\<open>firePromise\<close> over the
  one-shot request \<^verbatim>\<open>query(this.client, {...options, variables})\<close>, given here by what
  awaiting the request yields.
\<close>

definition fireQuery :: "thrown + RawResult \<Rightarrow> (json \<Rightarrow> json) \<Rightarrow> promise" where
  "fireQuery response mapFn = firePromise response mapFn"

section \<open>Sign-in\<close>

text \<open>Modelled from the spec: the Token Store of \<^verbatim>\<open>./auth\<close> (\<^verbatim>\<open>getAuthToken\<close>,
  \<^verbatim>\<open>setAuthToken\<close>) is imported by \<^verbatim>\<open>src/index.ts\<close> and its body is missing. The spec
  (4.1): \<^verbatim>\<open>get\<close> reads the current token, falling back to durable storage if process
  memory is uninitialized; \<^verbatim>\<open>set\<close> stores the token in process memory and in durable
  storage. The stored value is whatever the caller passes.
\<close>

record TokenStore =
  memory :: "json option"
  durable :: "json option"

text \<open>Modelled from the spec: \<^verbatim>\<open>getAuthToken\<close> of \<^verbatim>\<open>./auth\<close>, the \<^verbatim>\<open>get\<close> of 4.1.\<close>

definition getAuthToken :: "TokenStore \<Rightarrow> json option" where
  "getAuthToken s = (case memory s of Some t \<Rightarrow> Some t | None \<Rightarrow> durable s)"

text \<open>Modelled from the spec: \<^verbatim>\<open>setAuthToken\<close> of \<^verbatim>\<open>./auth\<close>, the \<^verbatim>\<open>set\<close> of 4.1.\<close>

definition setAuthToken :: "json \<Rightarrow> TokenStore \<Rightarrow> TokenStore" where
  "setAuthToken token s = \<lparr>memory = Some token, durable = Some token\<rparr>"

text \<open>
  What sign-in acts on besides its promise: the Token Store, whether the environment
  has the credential-storage capability (\<^verbatim>\<open>window.PasswordCredential\<close>), the credentials
  handed to \<^verbatim>\<open>navigator.credentials.store\<close> (id and password), and the raw results the
  caller's own \<^verbatim>\<open>update\<close> hook was invoked with.
\<close>

record World =
  tokenStore :: TokenStore
  passwordCredential :: bool
  credentials :: "(json \<times> json) list"
  updateCalls :: "RawResult list"

text \<open>
  The \<^verbatim>\<open>update\<close> hook that \<^verbatim>\<open>signIn\<close> passes to the mutation (src/index.ts, lines
  90-110). \<open>options_update\<close> says whether \<^verbatim>\<open>options && options.update\<close> is truthy, that
  is, whether the caller supplied a hook of their own. The projection
  \<^verbatim>\<open>data => data.tokenCreate\<close> is property access.
\<close>

definition signIn_update :: "json \<Rightarrow> bool \<Rightarrow> RawResult \<Rightarrow> World \<Rightarrow> World" where
  "signIn_update variables options_update result w =
     (let handledData = handleDataErrors (get_prop ''tokenCreate'') (data result) (errors result);
          w1 = (if outcome_errors handledData = None \<and> truthy (outcome_data handledData)
                then (let w' = w\<lparr>tokenStore :=
                                   setAuthToken (get_prop ''token'' (outcome_data handledData))
                                     (tokenStore w)\<rparr>
                      in if passwordCredential w' \<and> truthy variables
                         then w'\<lparr>credentials := credentials w' @
                                   [(get_prop ''email'' variables, get_prop ''password'' variables)]\<rparr>
                         else w')
                else w)
      in if options_update then w1\<lparr>updateCalls := updateCalls w1 @ [result]\<rparr> else w1)"

text \<open>Modelled from the spec: \<^verbatim>\<open>MUTATIONS.TokenAuth\<close> of \<^verbatim>\<open>./mutations\<close> is imported by
  \<^verbatim>\<open>src/index.ts\<close> and its body is missing. The spec (6, transport pipeline contract;
  4.4, \<^verbatim>\<open>signIn\<close>): the transport takes the operation, the variables and the per-call
  options and gives back a raw result, or fails. When it has a raw result it hands it
  to the \<^verbatim>\<open>update\<close> hook of the options before its promise settles; when it fails the
  hook is not invoked.
\<close>

definition fireMutation ::
  "(RawResult \<Rightarrow> World \<Rightarrow> World) \<Rightarrow> thrown + RawResult \<Rightarrow> World \<Rightarrow> World \<times> (thrown + RawResult)" where
  "fireMutation update response w =
     (case response of
        Inl e \<Rightarrow> (w, Inl e)
      | Inr r \<Rightarrow> (update r w, Inr r))"

text \<open>
  \<^verbatim>\<open>signIn\<close> (src/index.ts, lines 79-117): the outer promise awaits the promise of
  \<^verbatim>\<open>fireQuery\<close>, resolves with its value and rejects with what it rejects with.
\<close>

definition signIn :: "json \<Rightarrow> bool \<Rightarrow> thrown + RawResult \<Rightarrow> World \<Rightarrow> World \<times> promise" where
  "signIn variables options_update response w =
     (let (w', awaited) = fireMutation (signIn_update variables options_update) response w
      in (w', case fireQuery awaited (get_prop ''tokenCreate'') of
                Resolved v \<Rightarrow> resolve v Pending
              | Rejected e \<Rightarrow> reject e Pending
              | Pending \<Rightarrow> Pending))"

section \<open>Sign-in for any emptiness test\<close>

text \<open>
  What \<^verbatim>\<open>signIn\<close> does when the mutation reports domain errors is decided by
  \<^verbatim>\<open>isDataEmpty\<close>, whose body is not in \<^verbatim>\<open>src/index.ts\<close>. The definitions of this section
  are \<^verbatim>\<open>handleDataErrors\<close>, \<^verbatim>\<open>firePromise\<close>, \<^verbatim>\<open>fireQuery\<close>, the \<^verbatim>\<open>update\<close> hook and
  \<^verbatim>\<open>signIn\<close> once more, line for line as above, with the emptiness test a parameter
  \<open>isEmpty\<close> where the source calls \<^verbatim>\<open>isDataEmpty\<close>.
\<close>

definition handleDataErrors_with ::
  "(json \<Rightarrow> bool) \<Rightarrow> (json \<Rightarrow> json) \<Rightarrow> json \<Rightarrow> GraphQLError list option \<Rightarrow> outcome" where
  "handleDataErrors_with isEmpty mapFn d apolloErrors =
     (case (unifiedError d apolloErrors, isEmpty d) of
        (Some e, True) \<Rightarrow> Errors e
      | _ \<Rightarrow> (let result = getMappedData mapFn d in Data result))"

definition firePromise_with ::
  "(json \<Rightarrow> bool) \<Rightarrow> thrown + RawResult \<Rightarrow> (json \<Rightarrow> json) \<Rightarrow> promise" where
  "firePromise_with isEmpty awaited mapFn =
     (case awaited of
        Inl error \<Rightarrow> reject error Pending
      | Inr r \<Rightarrow>
          (let errorHandledData = handleDataErrors_with isEmpty mapFn (data r) (errors r);
               p = (case outcome_errors errorHandledData of
                      Some e \<Rightarrow> reject (ApolloErr e) Pending
                    | None \<Rightarrow> Pending)
           in resolve (JObj [(''data'', outcome_data errorHandledData)]) p))"

definition fireQuery_with ::
  "(json \<Rightarrow> bool) \<Rightarrow> thrown + RawResult \<Rightarrow> (json \<Rightarrow> json) \<Rightarrow> promise" where
  "fireQuery_with isEmpty response mapFn = firePromise_with isEmpty response mapFn"

definition signIn_update_with ::
  "(json \<Rightarrow> bool) \<Rightarrow> json \<Rightarrow> bool \<Rightarrow> RawResult \<Rightarrow> World \<Rightarrow> World" where
  "signIn_update_with isEmpty variables options_update result w =
     (let handledData =
            handleDataErrors_with isEmpty (get_prop ''tokenCreate'') (data result) (errors result);
          w1 = (if outcome_errors handledData = None \<and> truthy (outcome_data handledData)
                then (let w' = w\<lparr>tokenStore :=
                                   setAuthToken (get_prop ''token'' (outcome_data handledData))
                                     (tokenStore w)\<rparr>
                      in if passwordCredential w' \<and> truthy variables
                         then w'\<lparr>credentials := credentials w' @
                                   [(get_prop ''email'' variables, get_prop ''password'' variables)]\<rparr>
                         else w')
                else w)
      in if options_update then w1\<lparr>updateCalls := updateCalls w1 @ [result]\<rparr> else w1)"

definition signIn_with ::
  "(json \<Rightarrow> bool) \<Rightarrow> json \<Rightarrow> bool \<Rightarrow> thrown + RawResult \<Rightarrow> World \<Rightarrow> World \<times> promise" where
  "signIn_with isEmpty variables options_update response w =
     (let (w', awaited) =
            fireMutation (signIn_update_with isEmpty variables options_update) response w
      in (w', case fireQuery_with isEmpty awaited (get_prop ''tokenCreate'') of
                Resolved v \<Rightarrow> resolve v Pending
              | Rejected e \<Rightarrow> reject e Pending
              | Pending \<Rightarrow> Pending))"

text \<open>Modelled from the spec: the emptiness test \<^verbatim>\<open>isDataEmpty\<close> of \<^verbatim>\<open>./utils\<close>, read by the
  first half of the spec's sentence (4.3, step 3), "the payload's meaningful data
  fields are all null/absent", and by its invariant (3), "if domain errors exist and
  the relevant data node is null/absent, the outcome is error". The \<^verbatim>\<open>errors\<close> list of a
  result wrapper reports on the data and is not a data field: a wrapper is empty when
  its other fields are all null, and the data is empty when the root is null or every
  direct child is null or an empty wrapper.
\<close>

fun wrapper_empty :: "json \<Rightarrow> bool" where
  "wrapper_empty (JObj fs) = list_all nullish (map snd (filter (\<lambda>f. fst f \<noteq> ''errors'') fs))"
| "wrapper_empty v = nullish v"

definition meaningfulDataEmpty :: "json \<Rightarrow> bool" where
  "meaningfulDataEmpty d = (nullish d \<or> list_all wrapper_empty (children d))"

section \<open>Watched queries\<close>

text \<open>
  The callbacks of a watched query are supplied by the caller. The options record says
  which of them are present (\<^verbatim>\<open>onComplete\<close> and \<^verbatim>\<open>onError\<close> are optional in the source;
  \<^verbatim>\<open>onUpdate\<close> is required by its type and still tested with \<^verbatim>\<open>if (onUpdate)\<close>), and
  each invocation is recorded, with its argument, in the order in which it is made.
\<close>

record WatchOptions =
  onComplete :: bool
  onError :: bool
  onUpdate :: bool

datatype callback = OnUpdate json | OnError thrown | OnComplete

text \<open>
  The first observer function of \<^verbatim>\<open>observable.subscribe\<close> (src/index.ts, lines 159-178):
  the invocations made for one emitted result.
\<close>

definition subscribe_next :: "(json \<Rightarrow> json) \<Rightarrow> WatchOptions \<Rightarrow> RawResult \<Rightarrow> callback list" where
  "subscribe_next mapFn opts result =
     (let errorHandledData = handleDataErrors mapFn (data result) (errors result)
      in if onUpdate opts
         then (case outcome_errors errorHandledData of
                 Some e \<Rightarrow> (if onError opts then [OnError (ApolloErr e)] else [])
               | None \<Rightarrow>
                   OnUpdate (outcome_data errorHandledData) #
                     (if onComplete opts then [OnComplete] else []))
         else [])"

text \<open>The second observer function (src/index.ts, lines 179-183).\<close>

definition subscribe_error :: "WatchOptions \<Rightarrow> thrown \<Rightarrow> callback list" where
  "subscribe_error opts error = (if onError opts then [OnError error] else [])"

text \<open>Modelled from the spec: the operation catalog \<^verbatim>\<open>QUERIES\<close> of \<^verbatim>\<open>./queries\<close> and the
  observable it returns are outside \<^verbatim>\<open>src/index.ts\<close>. The spec (5; 6): a watched
  operation is a subscribable stream of raw results, delivered in the order the
  transport emits them; a failure of the transport reaches \<^verbatim>\<open>onError\<close>. An emission is a
  result, handed to the first observer function, or a failure, handed to the second;
  a failure ends the stream.
\<close>

datatype emission = Next RawResult | Failure thrown

text \<open>Modelled from the spec: the lifetime of a subscription, every emission handed to the
  observer function it is for, in order (spec 5).\<close>

fun run_subscription :: "(json \<Rightarrow> json) \<Rightarrow> WatchOptions \<Rightarrow> emission list \<Rightarrow> callback list" where
  "run_subscription mapFn opts [] = []"
| "run_subscription mapFn opts (Next result # ems) =
     subscribe_next mapFn opts result @ run_subscription mapFn opts ems"
| "run_subscription mapFn opts (Failure error # ems) = subscribe_error opts error"

text \<open>Modelled from the spec: the controls of the observable (\<^verbatim>\<open>setVariables\<close>,
  \<^verbatim>\<open>currentResult\<close>, \<^verbatim>\<open>refetch\<close>) belong to the transport. The spec (6; 4.4): the
  stream comes with \<^verbatim>\<open>refetch(variables?)\<close>, which re-runs the operation over the
  network with optionally new variables, and the cached result delivered first is the
  one that matches the variables. An observable is its current variables, what the
  cache holds for each variables (a payload of \<^verbatim>\<open>undefined\<close> where it holds nothing), and
  what the network answers for each variables.
\<close>

record Observable =
  variables :: json
  cached :: "json \<Rightarrow> RawResult"
  network :: "json \<Rightarrow> thrown + RawResult"

text \<open>Modelled from the spec: \<^verbatim>\<open>observable.setVariables\<close>, which makes the new variables
  the current ones.\<close>

definition setVariables :: "json \<Rightarrow> Observable \<Rightarrow> Observable" where
  "setVariables vs obs = obs\<lparr>variables := vs\<rparr>"

text \<open>Modelled from the spec: \<^verbatim>\<open>observable.currentResult\<close>, the cached result for the
  current variables.\<close>

definition currentResult :: "Observable \<Rightarrow> RawResult" where
  "currentResult obs = cached obs (variables obs)"

text \<open>Modelled from the spec: \<^verbatim>\<open>observable.refetch(variables)\<close>, the network answer for
  the variables passed or, when none are passed, for the current ones.\<close>

definition observable_refetch :: "json \<Rightarrow> Observable \<Rightarrow> Observable \<times> (thrown + RawResult)" where
  "observable_refetch vs obs =
     (let obs' = (if vs = JUndefined then obs else obs\<lparr>variables := vs\<rparr>)
      in (obs', network obs' (variables obs')))"

text \<open>
  \<^verbatim>\<open>refetch\<close> of the handle that \<^verbatim>\<open>watchQuery\<close> returns (src/index.ts, lines 187-198). The
  call of \<^verbatim>\<open>onUpdate\<close> here is not guarded by \<^verbatim>\<open>if (onUpdate)\<close>: calling a callback that
  is absent throws a \<^verbatim>\<open>TypeError\<close> out of \<^verbatim>\<open>refetch\<close>. The result is the observable
  afterwards, the invocations made before \<^verbatim>\<open>refetch\<close> returns, and the returned promise
  as it settles.
\<close>

definition refetch ::
  "(json \<Rightarrow> json) \<Rightarrow> WatchOptions \<Rightarrow> json \<Rightarrow> Observable \<Rightarrow>
     thrown + (Observable \<times> callback list \<times> promise)" where
  "refetch mapFn opts vs obs =
     (let fire = (\<lambda>obs1 calls.
            let (obs2, awaited) = observable_refetch vs obs1
            in Inr (obs2, calls, firePromise awaited mapFn))
      in if truthy vs
         then (let obs1 = setVariables vs obs;
                   cachedResult = currentResult obs1;
                   errorHandledData = handleDataErrors mapFn (data cachedResult) None
               in if truthy (outcome_data errorHandledData)
                  then (if onUpdate opts
                        then fire obs1 [OnUpdate (outcome_data errorHandledData)]
                        else Inl (Exn ''TypeError: onUpdate is not a function''))
                  else fire obs1 [])
         else fire obs [])"

section \<open>Reading a record of invocations\<close>

text \<open>The arguments of the \<^verbatim>\<open>onUpdate\<close> invocations, and of the \<^verbatim>\<open>onError\<close> invocations.\<close>

fun updates :: "callback list \<Rightarrow> json list" where
  "updates [] = []"
| "updates (OnUpdate v # cs) = v # updates cs"
| "updates (c # cs) = updates cs"

fun failures :: "callback list \<Rightarrow> thrown list" where
  "failures [] = []"
| "failures (OnError e # cs) = e # failures cs"
| "failures (c # cs) = failures cs"

text \<open>
  Every \<^verbatim>\<open>onUpdate\<close> invocation is followed at once by an \<^verbatim>\<open>onComplete\<close> invocation, and
  \<^verbatim>\<open>onComplete\<close> is invoked nowhere else.
\<close>

fun complete_after_each_update :: "callback list \<Rightarrow> bool" where
  "complete_after_each_update [] = True"
| "complete_after_each_update (OnUpdate v # OnComplete # cs) = complete_after_each_update cs"
| "complete_after_each_update (OnUpdate v # cs) = False"
| "complete_after_each_update (OnComplete # cs) = False"
| "complete_after_each_update (OnError e # cs) = complete_after_each_update cs"

section \<open>Scenario inputs\<close>

text \<open>The fixed inputs of the sign-in scenarios: the credentials, the two payloads of the
  sign-in mutation and a world whose Token Store holds nothing yet.\<close>

abbreviation credentials_input :: json where
  "credentials_input \<equiv> JObj [(''email'', JStr ''a@b.com''), (''password'', JStr ''x'')]"



abbreviation signin_success :: RawResult where
  "signin_success \<equiv>
     \<lparr>data = JObj [(''tokenCreate'', JObj [(''token'', JStr ''T123''), (''errors'', JArr [])])],
      errors = None\<rparr>"

abbreviation signed_out :: World where
  "signed_out \<equiv>
     \<lparr>tokenStore = \<lparr>memory = None, durable = None\<rparr>, passwordCredential = False,
      credentials = [], updateCalls = []\<rparr>"


abbreviation all_callbacks :: WatchOptions where
  "all_callbacks \<equiv> \<lparr>onComplete = True, onError = True, onUpdate = True\<rparr>"

section \<open>Facts about the normalizer\<close>

text \<open>A payload whose fields are all null holds no list of domain errors.\<close>

lemma errors_in_fields_all_null:
  "list_all nullish (map snd fs) \<Longrightarrow> errors_in_fields fs = JNull"
proof (induction fs)
  case Nil
  then show ?case by simp
next
  case (Cons f fs)
  obtain k v where f: "f = (k, v)" by (cases f)
  with Cons have n: "nullish v" and rest: "errors_in_fields fs = JNull" by simp_all
  from n show ?case unfolding f
    by (cases v) (simp_all add: rest)
qed

lemma empty_data_has_no_domain_errors:
  "isDataEmpty d \<Longrightarrow> getErrorsFromData d = JNull"
  by (cases d) (simp_all add: isDataEmpty_def errors_in_fields_all_null)

text \<open>The three ways through \<^verbatim>\<open>handleDataErrors\<close>.\<close>

lemma handleDataErrors_empty:
  "isDataEmpty d \<Longrightarrow> unifiedError d apolloErrors = Some e \<Longrightarrow>
     handleDataErrors mapFn d apolloErrors = Errors e"
  by (simp add: handleDataErrors_def)

lemma handleDataErrors_not_empty:
  "\<not> isDataEmpty d \<Longrightarrow> handleDataErrors mapFn d apolloErrors = Data (mapFn d)"
  by (simp add: handleDataErrors_def getMappedData_def split: option.splits)

lemma handleDataErrors_no_error:
  "unifiedError d apolloErrors = None \<Longrightarrow> handleDataErrors mapFn d apolloErrors = Data (mapFn d)"
  by (simp add: handleDataErrors_def getMappedData_def)

lemma unifiedError_present:
  "unifiedError d (Some es) = Some \<lparr>extraInfo = getErrorsFromData d, graphQLErrors = Some es\<rparr>"
  by (simp add: unifiedError_def)

lemma unifiedError_absent:
  "unifiedError d None =
     (if truthy (getErrorsFromData d)
      then Some \<lparr>extraInfo = getErrorsFromData d, graphQLErrors = None\<rparr> else None)"
  by (simp add: unifiedError_def)

section \<open>The normalizer: claims C1, C2, C3 and C10\<close>

text \<open>
  C1. For every raw result whose data payload is null, or whose direct child fields are
  all null, and which has a non-empty list of transport errors or a non-empty list of
  embedded domain errors found in the data, \<^verbatim>\<open>handleDataErrors\<close> returns \<^verbatim>\<open>{ errors }\<close>,
  carrying the unified error built from both lists, and never \<^verbatim>\<open>{ data }\<close>. The
  projection is any function: it is not consulted.
\<close>

theorem normalizer_empty_data_gives_errors:
  assumes empty: "nullish d \<or> (\<forall>c \<in> set (children d). nullish c)"
    and err: "(\<exists>e es. apolloErrors = Some (e # es)) \<or> truthy (getErrorsFromData d)"
  shows "handleDataErrors mapFn d apolloErrors =
           Errors \<lparr>extraInfo = getErrorsFromData d, graphQLErrors = apolloErrors\<rparr>
         \<and> (\<forall>v. handleDataErrors mapFn d apolloErrors \<noteq> Data v)"
proof -
  from empty have e: "isDataEmpty d"
    by (auto simp: isDataEmpty_def list_all_iff)
  from err have "unifiedError d apolloErrors =
      Some \<lparr>extraInfo = getErrorsFromData d, graphQLErrors = apolloErrors\<rparr>"
    by (auto simp: unifiedError_def)
  with e have "handleDataErrors mapFn d apolloErrors =
      Errors \<lparr>extraInfo = getErrorsFromData d, graphQLErrors = apolloErrors\<rparr>"
    by (rule handleDataErrors_empty)
  then show ?thesis by simp
qed

text \<open>The payload \<^verbatim>\<open>{product: null}\<close> with one transport error.\<close>

theorem normalizer_empty_data_gives_errors_witness:
  "handleDataErrors (get_prop ''product'') (JObj [(''product'', JNull)])
       (Some [GraphQLError ''Internal server error'']) =
     Errors \<lparr>extraInfo = JNull, graphQLErrors = Some [GraphQLError ''Internal server error'']\<rparr>"
  using normalizer_empty_data_gives_errors
    [of "JObj [(''product'', JNull)]" "Some [GraphQLError ''Internal server error'']"
        "get_prop ''product''"]
  by simp

text \<open>
  C2 as stated fails. A raw result with a null payload and a transport-error list that
  is present and empty has no transport errors and no domain errors, and the outcome is
  \<^verbatim>\<open>{ errors }\<close>, not \<^verbatim>\<open>{ data: mapFn(data) }\<close>.
\<close>

theorem pass_through_counterexample:
  "\<not> truthy (getErrorsFromData JNull)
   \<and> handleDataErrors (get_prop ''product'') JNull (Some []) =
       Errors \<lparr>extraInfo = JNull, graphQLErrors = Some []\<rparr>
   \<and> handleDataErrors (get_prop ''product'') JNull (Some []) \<noteq> Data (get_prop ''product'' JNull)"
  by (simp add: handleDataErrors_def unifiedError_def isDataEmpty_def)

text \<open>
  C2, amended. For every raw result with no embedded domain errors whose transport-error
  list is absent, or is present and empty while the data payload is not empty,
  \<^verbatim>\<open>handleDataErrors\<close> returns \<^verbatim>\<open>{ data: projected }\<close> where \<^verbatim>\<open>projected\<close> is the projection
  applied to the raw data payload.
\<close>

theorem normalizer_pass_through:
  assumes "apolloErrors = None \<or> (apolloErrors = Some [] \<and> \<not> isDataEmpty d)"
    and "\<not> truthy (getErrorsFromData d)"
  shows "handleDataErrors mapFn d apolloErrors = Data (mapFn d)"
  using assms
  by (auto simp: handleDataErrors_no_error unifiedError_absent handleDataErrors_not_empty)

text \<open>The payload \<^verbatim>\<open>{product: {id: "42"}}\<close> with no transport errors.\<close>

theorem normalizer_pass_through_witness:
  "handleDataErrors (get_prop ''product'') (JObj [(''product'', JObj [(''id'', JStr ''42'')])]) None =
     Data (JObj [(''id'', JStr ''42'')])"
  using normalizer_pass_through
    [of None "JObj [(''product'', JObj [(''id'', JStr ''42'')])]" "get_prop ''product''"]
  by simp

text \<open>
  C3. For every raw result in which embedded domain errors are found while the data
  payload is not empty (the root is not null and some direct child field is not null),
  \<^verbatim>\<open>handleDataErrors\<close> returns the data outcome \<^verbatim>\<open>{ data: projected }\<close>, whatever the
  transport errors are. The unified error that carries the domain errors has been
  built, and the outcome has no \<^verbatim>\<open>errors\<close> field: a caller who reads the outcome does
  not get it.
\<close>

theorem domain_errors_with_data_give_data:
  assumes "truthy (getErrorsFromData d)"
    and "\<not> nullish d"
    and "\<exists>c \<in> set (children d). \<not> nullish c"
  shows "handleDataErrors mapFn d apolloErrors = Data (mapFn d)
         \<and> outcome_errors (handleDataErrors mapFn d apolloErrors) = None
         \<and> unifiedError d apolloErrors =
             Some \<lparr>extraInfo = getErrorsFromData d, graphQLErrors = apolloErrors\<rparr>"
proof -
  from assms(2,3) have "\<not> isDataEmpty d"
    by (auto simp: isDataEmpty_def list_all_iff)
  then have "handleDataErrors mapFn d apolloErrors = Data (mapFn d)"
    by (rule handleDataErrors_not_empty)
  moreover from assms(1) have "unifiedError d apolloErrors =
      Some \<lparr>extraInfo = getErrorsFromData d, graphQLErrors = apolloErrors\<rparr>"
    by (simp add: unifiedError_def)
  ultimately show ?thesis by simp
qed

text \<open>An address deletion that reports a domain error next to the user it returns.\<close>

theorem domain_errors_with_data_give_data_witness:
  "handleDataErrors (get_prop ''addressDelete'')
      (JObj [(''addressDelete'',
         JObj [(''user'', JObj [(''id'', JStr ''7'')]),
               (''errors'', JArr [JObj [(''field'', JStr ''id''), (''message'', JStr ''Not found'')]])])])
      None =
    Data (JObj [(''user'', JObj [(''id'', JStr ''7'')]),
               (''errors'', JArr [JObj [(''field'', JStr ''id''), (''message'', JStr ''Not found'')]])])"
  using domain_errors_with_data_give_data
    [of "JObj [(''addressDelete'',
         JObj [(''user'', JObj [(''id'', JStr ''7'')]),
               (''errors'', JArr [JObj [(''field'', JStr ''id''), (''message'', JStr ''Not found'')]])])]"
        "get_prop ''addressDelete''" None]
  by simp

text \<open>
  C10. For every data payload and projection, when the transport-errors argument is
  present and is the empty list, the unified error is still built. In particular, when
  the data payload is also empty there are no domain errors either, and the outcome is
  \<^verbatim>\<open>{ errors }\<close>.
\<close>

theorem empty_transport_errors_still_error:
  "unifiedError d (Some []) = Some \<lparr>extraInfo = getErrorsFromData d, graphQLErrors = Some []\<rparr>
   \<and> (isDataEmpty d \<longrightarrow>
        getErrorsFromData d = JNull
        \<and> handleDataErrors mapFn d (Some []) = Errors \<lparr>extraInfo = JNull, graphQLErrors = Some []\<rparr>)"
  by (simp add: unifiedError_present handleDataErrors_empty empty_data_has_no_domain_errors)

text \<open>The null payload with an empty list of transport errors.\<close>

theorem empty_transport_errors_still_error_witness:
  "unifiedError JNull (Some []) = Some \<lparr>extraInfo = JNull, graphQLErrors = Some []\<rparr>
   \<and> isDataEmpty JNull
   \<and> handleDataErrors (get_prop ''me'') JNull (Some []) = Errors \<lparr>extraInfo = JNull, graphQLErrors = Some []\<rparr>"
  using empty_transport_errors_still_error [of JNull "get_prop ''me''"]
  by (simp add: isDataEmpty_def)

section \<open>Promises: claim C4\<close>

lemma firePromise_thrown: "firePromise (Inl e) mapFn = Rejected e"
  by (simp add: firePromise_def)

lemma firePromise_result:
  "firePromise (Inr r) mapFn =
     (case handleDataErrors mapFn (data r) (errors r) of
        Errors err \<Rightarrow> Rejected (ApolloErr err)
      | Data projected \<Rightarrow> Resolved (JObj [(''data'', projected)]))"
  by (simp add: firePromise_def split: outcome.splits)

text \<open>
  C4. For every call of \<^verbatim>\<open>firePromise\<close>: if awaiting the factory throws, the promise
  rejects with that exception, whatever the projection is. Otherwise the promise rejects
  with the unified error exactly when the normalized outcome is that error, and
  resolves with \<^verbatim>\<open>{ data: projected }\<close> exactly when the normalized outcome is that
  data. It never stays pending. The statement is about whatever outcome
  \<^verbatim>\<open>handleDataErrors\<close> returns, and its proof unfolds \<^verbatim>\<open>firePromise\<close> only.
\<close>

theorem firePromise_settles:
  "firePromise (Inl e) mapFn = Rejected e
   \<and> (firePromise (Inr r) mapFn = Rejected (ApolloErr err)) =
       (handleDataErrors mapFn (data r) (errors r) = Errors err)
   \<and> (firePromise (Inr r) mapFn = Resolved (JObj [(''data'', projected)])) =
       (handleDataErrors mapFn (data r) (errors r) = Data projected)
   \<and> firePromise awaited mapFn \<noteq> Pending"
proof -
  have "firePromise awaited mapFn \<noteq> Pending"
    by (cases awaited) (simp_all add: firePromise_thrown firePromise_result split: outcome.splits)
  then show ?thesis
    by (simp add: firePromise_thrown firePromise_result split: outcome.splits)
qed

text \<open>A failed fetch, a result that normalizes to an error, and one that normalizes to
  data.\<close>

theorem firePromise_settles_witness:
  "firePromise (Inl (Exn ''Network error: Failed to fetch'')) (get_prop ''me'') =
      Rejected (Exn ''Network error: Failed to fetch'')
   \<and> firePromise (Inr \<lparr>data = JNull, errors = Some [GraphQLError ''Forbidden'']\<rparr>) (get_prop ''me'') =
      Rejected (ApolloErr \<lparr>extraInfo = JNull, graphQLErrors = Some [GraphQLError ''Forbidden'']\<rparr>)
   \<and> firePromise (Inr \<lparr>data = JObj [(''me'', JObj [(''id'', JStr ''7'')])], errors = None\<rparr>) (get_prop ''me'') =
      Resolved (JObj [(''data'', JObj [(''id'', JStr ''7'')])])"
  using firePromise_settles
      [of "Exn ''Network error: Failed to fetch''" "get_prop ''me''"
          "\<lparr>data = JNull, errors = Some [GraphQLError ''Forbidden'']\<rparr>"
          "\<lparr>extraInfo = JNull, graphQLErrors = Some [GraphQLError ''Forbidden'']\<rparr>"]
    firePromise_settles
      [of _ "get_prop ''me''"
          "\<lparr>data = JObj [(''me'', JObj [(''id'', JStr ''7'')])], errors = None\<rparr>" _
          "JObj [(''id'', JStr ''7'')]"]
  by (simp add: handleDataErrors_def unifiedError_def isDataEmpty_def getMappedData_def)

section \<open>Sign-in: claims C5 and C6\<close>

lemma signIn_promise:
  "snd (signIn vars options_update response w) = firePromise response (get_prop ''tokenCreate'')"
proof (cases response)
  case (Inl e)
  then show ?thesis
    by (simp add: signIn_def fireMutation_def fireQuery_def firePromise_thrown)
next
  case (Inr r)
  then show ?thesis
    by (simp add: signIn_def fireMutation_def fireQuery_def firePromise_result split: outcome.splits)
qed

lemma signIn_world:
  "fst (signIn vars options_update (Inr r) w) = signIn_update vars options_update r w"
  by (simp add: signIn_def fireMutation_def)

text \<open>The definitions with the emptiness test as a parameter are the ones above when the
  parameter is \<open>isDataEmpty\<close>.\<close>

lemma handleDataErrors_with_isDataEmpty:
  "handleDataErrors_with isDataEmpty = handleDataErrors"
  by (intro ext) (simp add: handleDataErrors_with_def handleDataErrors_def)

lemma firePromise_with_isDataEmpty:
  "firePromise_with isDataEmpty = firePromise"
  by (intro ext)
    (simp add: firePromise_with_def firePromise_def handleDataErrors_with_isDataEmpty
      split: sum.splits)

lemma signIn_update_with_isDataEmpty:
  "signIn_update_with isDataEmpty = signIn_update"
  by (intro ext)
    (simp add: signIn_update_with_def signIn_update_def handleDataErrors_with_isDataEmpty)

lemma signIn_with_isDataEmpty:
  "signIn_with isDataEmpty = signIn"
  by (intro ext)
    (simp add: signIn_with_def signIn_def fireQuery_with_def fireQuery_def
      firePromise_with_isDataEmpty signIn_update_with_isDataEmpty split: prod.splits)

text \<open>The two emptiness tests agree that a null payload and a payload whose fields are
  all null are empty, and that the payload of a successful sign-in is not.\<close>

lemma nullish_wrapper_empty: "nullish v \<Longrightarrow> wrapper_empty v"
  by (cases v) simp_all

lemma isDataEmpty_meaningfulDataEmpty: "isDataEmpty d \<Longrightarrow> meaningfulDataEmpty d"
  by (auto simp: isDataEmpty_def meaningfulDataEmpty_def list_all_iff nullish_wrapper_empty)

lemma signin_success_not_empty:
  "\<not> isDataEmpty (data signin_success) \<and> \<not> meaningfulDataEmpty (data signin_success)"
  by (simp add: isDataEmpty_def meaningfulDataEmpty_def)




text \<open>
  C6. When the sign-in mutation succeeds, returning the payload
  \<^verbatim>\<open>{tokenCreate: {token: "T123", errors: []}}\<close> with no transport errors (the list absent
  or empty), \<^verbatim>\<open>signIn\<close> calls \<^verbatim>\<open>setAuthToken\<close> with \<^verbatim>\<open>"T123"\<close>, so that the Token Store
  holds \<^verbatim>\<open>"T123"\<close> afterwards, and its promise resolves with that payload,
  \<^verbatim>\<open>{ data: {token: "T123", errors: []} }\<close>. This holds for every variables, every world
  before the call, and whether or not the caller supplied an \<^verbatim>\<open>update\<close> hook.
\<close>

theorem signIn_success_stores_token:
  assumes "apolloErrors = None \<or> apolloErrors = Some []"
  shows "tokenStore (fst (signIn vars options_update (Inr (signin_success\<lparr>errors := apolloErrors\<rparr>)) w)) =
           setAuthToken (JStr ''T123'') (tokenStore w)
       \<and> getAuthToken (tokenStore (fst (signIn vars options_update
            (Inr (signin_success\<lparr>errors := apolloErrors\<rparr>)) w))) = Some (JStr ''T123'')
       \<and> snd (signIn vars options_update (Inr (signin_success\<lparr>errors := apolloErrors\<rparr>)) w) =
           Resolved (JObj [(''data'', JObj [(''token'', JStr ''T123''), (''errors'', JArr [])])])"
  using assms
  by (auto simp: signIn_promise signIn_world signIn_update_def firePromise_result
      handleDataErrors_def unifiedError_def isDataEmpty_def getMappedData_def setAuthToken_def
      getAuthToken_def Let_def)

text \<open>The scenario itself: the credentials \<^verbatim>\<open>{email: "a@b.com", password: "x"}\<close>, on a
  client that holds no token.\<close>

theorem signIn_success_stores_token_witness:
  "signIn credentials_input False (Inr signin_success) signed_out =
    (\<lparr>tokenStore = \<lparr>memory = Some (JStr ''T123''), durable = Some (JStr ''T123'')\<rparr>,
      passwordCredential = False, credentials = [], updateCalls = []\<rparr>,
     Resolved (JObj [(''data'', JObj [(''token'', JStr ''T123''), (''errors'', JArr [])])]))"
  using signIn_success_stores_token [of None credentials_input False signed_out]
  by (simp add: signIn_def fireMutation_def signIn_update_def fireQuery_def firePromise_def
      handleDataErrors_def unifiedError_def isDataEmpty_def getMappedData_def setAuthToken_def)

section \<open>Watched queries: claims C7, C8 and C9\<close>

text \<open>One emitted result leads to no invocation, to one \<^verbatim>\<open>onError\<close>, or to one \<^verbatim>\<open>onUpdate\<close>
  followed by \<^verbatim>\<open>onComplete\<close> when that callback is present.\<close>

lemma subscribe_next_shape:
  "subscribe_next mapFn opts r = [] \<or> (\<exists>e. subscribe_next mapFn opts r = [OnError e])
   \<or> (\<exists>v. subscribe_next mapFn opts r = OnUpdate v # (if onComplete opts then [OnComplete] else []))"
  by (simp add: subscribe_next_def Let_def split: option.splits)

lemma updates_append: "updates (xs @ ys) = updates xs @ updates ys"
  by (induction xs rule: updates.induct) simp_all

lemma count_complete_subscribe_error: "count_list (subscribe_error opts e) OnComplete = 0"
  by (simp add: subscribe_error_def)

lemma updates_subscribe_error: "updates (subscribe_error opts e) = []"
  by (simp add: subscribe_error_def)

lemma count_complete_subscribe_next:
  "count_list (subscribe_next mapFn opts r) OnComplete =
     (if onComplete opts then length (updates (subscribe_next mapFn opts r)) else 0)"
  using subscribe_next_shape [of mapFn opts r] by auto

lemma count_complete_run:
  "count_list (run_subscription mapFn opts ems) OnComplete =
     (if onComplete opts then length (updates (run_subscription mapFn opts ems)) else 0)"
  by (induction mapFn opts ems rule: run_subscription.induct)
    (simp_all add: count_complete_subscribe_next count_complete_subscribe_error
      updates_subscribe_error updates_append)

lemma complete_after_each_update_prepend:
  assumes "onComplete opts" and "complete_after_each_update cs"
  shows "complete_after_each_update (subscribe_next mapFn opts r @ cs)"
  using subscribe_next_shape [of mapFn opts r] assms by auto

lemma complete_after_each_update_run:
  "onComplete opts \<Longrightarrow> complete_after_each_update (run_subscription mapFn opts ems)"
  by (induction mapFn opts ems rule: run_subscription.induct)
    (simp_all add: complete_after_each_update_prepend subscribe_error_def)

text \<open>
  C7 as stated fails. A subscription that emits the cached result \<^verbatim>\<open>X\<close> and then the
  network result \<^verbatim>\<open>Y\<close> invokes \<^verbatim>\<open>onComplete\<close> twice, once after each \<^verbatim>\<open>onUpdate\<close>.
\<close>

theorem onComplete_once_counterexample:
  "run_subscription (get_prop ''product'') all_callbacks
      [Next \<lparr>data = JObj [(''product'', JObj [(''name'', JStr ''X'')])], errors = None\<rparr>,
       Next \<lparr>data = JObj [(''product'', JObj [(''name'', JStr ''Y'')])], errors = None\<rparr>] =
     [OnUpdate (JObj [(''name'', JStr ''X'')]), OnComplete,
      OnUpdate (JObj [(''name'', JStr ''Y'')]), OnComplete]
   \<and> count_list
        (run_subscription (get_prop ''product'') all_callbacks
          [Next \<lparr>data = JObj [(''product'', JObj [(''name'', JStr ''X'')])], errors = None\<rparr>,
           Next \<lparr>data = JObj [(''product'', JObj [(''name'', JStr ''Y'')])], errors = None\<rparr>])
        OnComplete = 2"
  by (simp add: subscribe_next_def handleDataErrors_def unifiedError_def isDataEmpty_def
      getMappedData_def)

text \<open>
  C7, amended. For every watched-query subscription, the \<^verbatim>\<open>onComplete\<close> callback, when
  it is supplied, is invoked immediately after every successful \<^verbatim>\<open>onUpdate\<close> invocation
  that the subscription makes for an emitted result, the first and the later ones
  alike, and at no other time: over the subscription's lifetime there are as many
  \<^verbatim>\<open>onComplete\<close> invocations as such \<^verbatim>\<open>onUpdate\<close> invocations. When it is not supplied
  there is none.
\<close>

theorem onComplete_after_every_update:
  "count_list (run_subscription mapFn opts ems) OnComplete =
     (if onComplete opts then length (updates (run_subscription mapFn opts ems)) else 0)
   \<and> (onComplete opts \<longrightarrow> complete_after_each_update (run_subscription mapFn opts ems))"
  by (simp add: count_complete_run complete_after_each_update_run)

text \<open>Three emissions, the second of which normalizes to an error.\<close>

theorem onComplete_after_every_update_witness:
  "count_list
      (run_subscription (get_prop ''product'') all_callbacks
        [Next \<lparr>data = JObj [(''product'', JObj [(''name'', JStr ''X'')])], errors = None\<rparr>,
         Next \<lparr>data = JNull, errors = Some [GraphQLError ''Internal server error'']\<rparr>,
         Next \<lparr>data = JObj [(''product'', JObj [(''name'', JStr ''Y'')])], errors = None\<rparr>])
      OnComplete = 2
   \<and> complete_after_each_update
      (run_subscription (get_prop ''product'') all_callbacks
        [Next \<lparr>data = JObj [(''product'', JObj [(''name'', JStr ''X'')])], errors = None\<rparr>,
         Next \<lparr>data = JNull, errors = Some [GraphQLError ''Internal server error'']\<rparr>,
         Next \<lparr>data = JObj [(''product'', JObj [(''name'', JStr ''Y'')])], errors = None\<rparr>])"
  using onComplete_after_every_update
    [of "get_prop ''product''" all_callbacks
        "[Next \<lparr>data = JObj [(''product'', JObj [(''name'', JStr ''X'')])], errors = None\<rparr>,
         Next \<lparr>data = JNull, errors = Some [GraphQLError ''Internal server error'']\<rparr>,
         Next \<lparr>data = JObj [(''product'', JObj [(''name'', JStr ''Y'')])], errors = None\<rparr>]"]
  by (simp add: subscribe_next_def handleDataErrors_def unifiedError_def isDataEmpty_def
      getMappedData_def)

text \<open>
  C8 as stated fails. \<^verbatim>\<open>onError\<close> is optional: when it is not supplied and the emitted
  result normalizes to an error, neither callback is invoked.
\<close>

theorem exactly_one_callback_counterexample:
  "subscribe_next (get_prop ''product'') \<lparr>onComplete = True, onError = False, onUpdate = True\<rparr>
      \<lparr>data = JNull, errors = Some [GraphQLError ''Internal server error'']\<rparr> = []"
  by (simp add: subscribe_next_def handleDataErrors_def unifiedError_def isDataEmpty_def)

text \<open>
  C8, amended. For every result emitted on a watched-query subscription whose \<^verbatim>\<open>onUpdate\<close>
  callback is supplied: when normalization succeeds, \<^verbatim>\<open>onUpdate\<close> is invoked once, with
  the projected data, and \<^verbatim>\<open>onError\<close> is not invoked; when normalization fails, \<^verbatim>\<open>onUpdate\<close>
  is not invoked, and \<^verbatim>\<open>onError\<close> is invoked once, with the unified error, if it is
  supplied; if it is not supplied, neither callback is invoked. Never both.
\<close>

theorem one_callback_per_emission:
  assumes "onUpdate opts"
  shows "(case handleDataErrors mapFn (data r) (errors r) of
            Data projected \<Rightarrow>
              updates (subscribe_next mapFn opts r) = [projected]
              \<and> failures (subscribe_next mapFn opts r) = []
          | Errors e \<Rightarrow>
              updates (subscribe_next mapFn opts r) = []
              \<and> failures (subscribe_next mapFn opts r) = (if onError opts then [ApolloErr e] else []))"
  using assms by (simp add: subscribe_next_def split: outcome.splits)

text \<open>An emission that normalizes to an error, with \<^verbatim>\<open>onError\<close> supplied.\<close>

theorem one_callback_per_emission_witness:
  "updates (subscribe_next (get_prop ''me'') \<lparr>onComplete = False, onError = True, onUpdate = True\<rparr>
      \<lparr>data = JNull, errors = Some [GraphQLError ''Forbidden'']\<rparr>) = []
   \<and> failures (subscribe_next (get_prop ''me'') \<lparr>onComplete = False, onError = True, onUpdate = True\<rparr>
      \<lparr>data = JNull, errors = Some [GraphQLError ''Forbidden'']\<rparr>) =
     [ApolloErr \<lparr>extraInfo = JNull, graphQLErrors = Some [GraphQLError ''Forbidden'']\<rparr>]"
  using one_callback_per_emission
    [of "\<lparr>onComplete = False, onError = True, onUpdate = True\<rparr>" "get_prop ''me''"
        "\<lparr>data = JNull, errors = Some [GraphQLError ''Forbidden'']\<rparr>"]
  by (simp add: handleDataErrors_def unifiedError_def isDataEmpty_def)

text \<open>
  C9 as stated fails. With the cached result \<^verbatim>\<open>{product: null}\<close> for \<^verbatim>\<open>{id: "42"}\<close> no
  \<^verbatim>\<open>onUpdate\<close> is made, and with the network answer \<^verbatim>\<open>{product: null}\<close> next to a
  transport error the returned promise rejects.
\<close>

theorem refetch_counterexample:
  "map_sum id snd
     (refetch (get_prop ''product'') all_callbacks (JObj [(''id'', JStr ''42'')])
        \<lparr>variables = JObj [(''id'', JStr ''1'')],
          cached = (\<lambda>vs. \<lparr>data = JObj [(''product'', JNull)], errors = None\<rparr>),
          network = (\<lambda>vs. Inr \<lparr>data = JObj [(''product'', JNull)],
                                errors = Some [GraphQLError ''Internal server error'']\<rparr>)\<rparr>) =
   Inr ([], Rejected (ApolloErr \<lparr>extraInfo = JNull,
                                 graphQLErrors = Some [GraphQLError ''Internal server error'']\<rparr>))"
  by (simp add: refetch_def setVariables_def currentResult_def observable_refetch_def
      firePromise_def handleDataErrors_def unifiedError_def isDataEmpty_def getMappedData_def)

text \<open>
  C9, amended. For every watched-query handle whose \<^verbatim>\<open>onUpdate\<close> callback is supplied,
  calling \<^verbatim>\<open>refetch\<close> with new variables sets them on the observable and, before it
  returns, invokes \<^verbatim>\<open>onUpdate\<close> with the projection of the cached result for those
  variables exactly when normalizing that result gives data whose projection is
  truthy. It then returns a promise that resolves with \<^verbatim>\<open>{ data: projected }\<close>, the
  projection of the fresh network result for those variables, when the fetch succeeds
  and that result normalizes to data; the promise rejects with the exception when the
  fetch throws, and with the unified error when the result normalizes to an error.
\<close>

theorem refetch_with_variables:
  assumes "truthy vs" and "onUpdate opts"
  shows "refetch mapFn opts vs obs =
           Inr (obs\<lparr>variables := vs\<rparr>,
                (case handleDataErrors mapFn (data (cached obs vs)) None of
                   Data projected \<Rightarrow> if truthy projected then [OnUpdate projected] else []
                 | Errors e \<Rightarrow> []),
                (case network obs vs of
                   Inl e \<Rightarrow> Rejected e
                 | Inr r \<Rightarrow>
                     (case handleDataErrors mapFn (data r) (errors r) of
                        Data projected \<Rightarrow> Resolved (JObj [(''data'', projected)])
                      | Errors e \<Rightarrow> Rejected (ApolloErr e))))"
proof -
  have v: "vs \<noteq> JUndefined" using assms(1) by auto
  show ?thesis
    using assms v
    by (simp add: refetch_def setVariables_def currentResult_def observable_refetch_def
        firePromise_def split: outcome.splits sum.splits)
qed

text \<open>The scenario: a stale product in the cache for \<^verbatim>\<open>{id: "42"}\<close>, a fresh one from the
  network.\<close>

theorem refetch_with_variables_witness:
  "map_sum id snd
     (refetch (get_prop ''product'') all_callbacks (JObj [(''id'', JStr ''42'')])
        \<lparr>variables = JObj [(''id'', JStr ''1'')],
          cached = (\<lambda>vs. \<lparr>data = JObj [(''product'', JObj [(''name'', JStr ''stale'')])], errors = None\<rparr>),
          network = (\<lambda>vs. Inr \<lparr>data = JObj [(''product'', JObj [(''name'', JStr ''fresh'')])],
                                errors = None\<rparr>)\<rparr>) =
   Inr ([OnUpdate (JObj [(''name'', JStr ''stale'')])],
        Resolved (JObj [(''data'', JObj [(''name'', JStr ''fresh'')])]))"
  using refetch_with_variables
    [of "JObj [(''id'', JStr ''42'')]" all_callbacks "get_prop ''product''"
        "\<lparr>variables = JObj [(''id'', JStr ''1'')],
          cached = (\<lambda>vs. \<lparr>data = JObj [(''product'', JObj [(''name'', JStr ''stale'')])], errors = None\<rparr>),
          network = (\<lambda>vs. Inr \<lparr>data = JObj [(''product'', JObj [(''name'', JStr ''fresh'')])],
                                errors = None\<rparr>)\<rparr>"]
  by (simp add: handleDataErrors_def unifiedError_def isDataEmpty_def getMappedData_def)

end
